theory Spec2Isabelle
  imports Main "HOL-Library.Word"
begin

unbundle bit_operations_syntax

section \<open>Apple II DOS 3.3 disk image tools\<close>

text \<open>
  A shallow embedding of \<^verbatim>\<open>scripts/disk-tools/make_disk_image.py\<close> (class
  \<^verbatim>\<open>DiskImage\<close>) and \<^verbatim>\<open>scripts/disk-tools/verify_disk.py\<close>
  (\<^verbatim>\<open>verify_disk_image\<close>). Python integers are \<open>int\<close>, the elements of a
  \<^verbatim>\<open>bytearray\<close> or \<^verbatim>\<open>bytes\<close> object are 8-bit words, an exception is
  the left injection of a sum, and what a function prints is returned as a list of lines.
\<close>

subsection \<open>Python sequences\<close>

type_synonym byte = "8 word"

text \<open>
  The exceptions the two scripts can raise. Both checks of \<^verbatim>\<open>get_sector\<close> and
  \<^verbatim>\<open>set_sector\<close> raise \<^verbatim>\<open>ValueError\<close>; the constructors keep the two messages apart:
  \<open>InvalidTrackSector\<close> is \<^verbatim>\<open>ValueError(f"Invalid track {track} sector {sector}")\<close>
  (the specification's OutOfRange) and \<open>DataTooLarge\<close> is
  \<^verbatim>\<open>ValueError(f"Data too large: {len(data)} bytes")\<close> (the specification's
  SectorOverflow). \<open>IndexError\<close> is raised by an index outside a sequence.
\<close>

datatype error = InvalidTrackSector int int | DataTooLarge nat | IndexError

text \<open>
  A slice bound of a sequence of length \<open>n\<close> (step 1): a negative bound counts from the
  end, and the result is clamped to \<open>[0, n]\<close>.
\<close>

definition slice_bound :: "int \<Rightarrow> nat \<Rightarrow> nat" where
  "slice_bound i n =
     (if i < 0 then (if i + int n < 0 then 0 else nat (i + int n))
      else (if int n < i then n else nat i))"

text \<open>\<^verbatim>\<open>xs[start:stop]\<close>: empty when the clamped stop is not after the clamped start.\<close>

definition py_getslice :: "'a list \<Rightarrow> int \<Rightarrow> int \<Rightarrow> 'a list" where
  "py_getslice xs start stop =
     (let a = slice_bound start (length xs); b = slice_bound stop (length xs)
      in if b \<le> a then [] else take (b - a) (drop a xs))"

text \<open>
  \<^verbatim>\<open>xs[start:stop] = ys\<close> on a bytearray: the slice is replaced by \<open>ys\<close> whatever
  its length; an empty slice (stop before start) inserts \<open>ys\<close> at the start position.
\<close>

definition py_setslice :: "'a list \<Rightarrow> int \<Rightarrow> int \<Rightarrow> 'a list \<Rightarrow> 'a list" where
  "py_setslice xs start stop ys =
     (let a = slice_bound start (length xs); b = slice_bound stop (length xs);
          b' = (if b < a then a else b)
      in take a xs @ ys @ drop b' xs)"

text \<open>
  \<^verbatim>\<open>xs[i]\<close> on a sequence of length \<open>n\<close>: the positions are \<open>0\<close> to \<open>n - 1\<close>,
  the indices \<open>-n\<close> to \<open>-1\<close> name the same positions from the back, and any other
  index raises \<^verbatim>\<open>IndexError\<close>.
\<close>

definition py_getitem :: "'a list \<Rightarrow> int \<Rightarrow> error + 'a" where
  "py_getitem xs i =
     (if 0 \<le> i \<and> i < int (length xs) then Inr (xs ! nat i)
      else if i < 0 \<and> 0 \<le> i + int (length xs) then Inr (xs ! nat (i + int (length xs)))
      else Inl IndexError)"

subsection \<open>Geometry and the image buffer (make\_disk\_image.py)\<close>

definition TRACKS_PER_DISK :: int where "TRACKS_PER_DISK = 35"
definition SECTORS_PER_TRACK :: int where "SECTORS_PER_TRACK = 16"
definition BYTES_PER_SECTOR :: int where "BYTES_PER_SECTOR = 256"
definition DISK_SIZE :: int where
  "DISK_SIZE = TRACKS_PER_DISK * SECTORS_PER_TRACK * BYTES_PER_SECTOR"

definition DOS33_VTOC_TRACK :: int where "DOS33_VTOC_TRACK = 17"
definition DOS33_VTOC_SECTOR :: int where "DOS33_VTOC_SECTOR = 0"
definition DOS33_CATALOG_TRACK :: int where "DOS33_CATALOG_TRACK = 17"
definition DOS33_CATALOG_SECTOR :: int where "DOS33_CATALOG_SECTOR = 1"

record DiskImage =
  format :: string
  name :: string
  data :: "byte list"

text \<open>\<^verbatim>\<open>DiskImage.__init__\<close>: the name is cut to 30 characters, the buffer is zero-filled.\<close>

definition DiskImage_init :: "string \<Rightarrow> string \<Rightarrow> DiskImage" where
  "DiskImage_init fmt nm =
     \<lparr>format = fmt, name = take 30 nm, data = replicate (nat DISK_SIZE) 0\<rparr>"

text \<open>
  The expression \<^verbatim>\<open>(track * SECTORS_PER_TRACK + sector) * BYTES_PER_SECTOR\<close> that
  \<^verbatim>\<open>get_sector\<close> and \<^verbatim>\<open>set_sector\<close> both bind to \<^verbatim>\<open>offset\<close>.
\<close>

definition sector_offset :: "int \<Rightarrow> int \<Rightarrow> int" where
  "sector_offset track sector = (track * SECTORS_PER_TRACK + sector) * BYTES_PER_SECTOR"

definition get_sector :: "DiskImage \<Rightarrow> int \<Rightarrow> int \<Rightarrow> error + byte list" where
  "get_sector d track sector =
     (if track \<ge> TRACKS_PER_DISK \<or> sector \<ge> SECTORS_PER_TRACK
      then Inl (InvalidTrackSector track sector)
      else let offset = sector_offset track sector
           in Inr (py_getslice (data d) offset (offset + BYTES_PER_SECTOR)))"

definition set_sector :: "DiskImage \<Rightarrow> int \<Rightarrow> int \<Rightarrow> byte list \<Rightarrow> error + DiskImage" where
  "set_sector d track sector dat =
     (if track \<ge> TRACKS_PER_DISK \<or> sector \<ge> SECTORS_PER_TRACK
      then Inl (InvalidTrackSector track sector)
      else if int (length dat) > BYTES_PER_SECTOR
      then Inl (DataTooLarge (length dat))
      else let offset = sector_offset track sector
           in Inr (d\<lparr>data := py_setslice (data d) offset (offset + int (length dat)) dat\<rparr>))"

text \<open>
  The sector addresses of the disk geometry, both bounds included: the domain on which
  the offset map is studied. (The two methods themselves test the upper bounds only.)
\<close>

definition valid_address :: "int \<Rightarrow> int \<Rightarrow> bool" where
  "valid_address track sector \<longleftrightarrow>
     0 \<le> track \<and> track < TRACKS_PER_DISK \<and> 0 \<le> sector \<and> sector < SECTORS_PER_TRACK"

subsection \<open>Formatting and adding files (make\_disk\_image.py)\<close>

text \<open>The lines the methods of \<^verbatim>\<open>DiskImage\<close> print.\<close>

datatype msg =
    Formatting string
  | FilesystemCreated
  | AddingFile string nat int int

text \<open>
  One turn of the loop \<^verbatim>\<open>for sector in range(16)\<close> of \<^verbatim>\<open>format_dos33\<close>:
  \<^verbatim>\<open>vtoc[byte_offset] &= ~(1 << bit)\<close>.
\<close>

definition mark_used :: "nat \<Rightarrow> byte list \<Rightarrow> byte list" where
  "mark_used sector vtoc =
     (let byte_offset = 0x38 + nat DOS33_VTOC_TRACK * 4 + sector div 8;
          b = 7 - sector mod 8
      in vtoc[byte_offset := (vtoc ! byte_offset) AND NOT (push_bit b 1)])"

text \<open>The VTOC sector that \<^verbatim>\<open>format_dos33\<close> builds before it writes it.\<close>

definition format_vtoc :: "byte list" where
  "format_vtoc =
     (let vtoc = replicate (nat BYTES_PER_SECTOR) 0;
          vtoc = vtoc[0x00 := 0];
          vtoc = vtoc[0x01 := word_of_int DOS33_CATALOG_TRACK];
          vtoc = vtoc[0x02 := word_of_int DOS33_CATALOG_SECTOR];
          vtoc = vtoc[0x03 := 3];
          vtoc = vtoc[0x06 := 254];
          vtoc = vtoc[0x27 := 122];
          vtoc = vtoc[0x30 := 1];
          vtoc = vtoc[0x34 := word_of_int TRACKS_PER_DISK];
          vtoc = vtoc[0x35 := word_of_int SECTORS_PER_TRACK];
          vtoc = vtoc[0x36 := 0];
          vtoc = vtoc[0x37 := 1]
      in fold mark_used [0..<16] vtoc)"

text \<open>The empty catalog sector that \<^verbatim>\<open>format_dos33\<close> builds.\<close>

definition format_catalog :: "byte list" where
  "format_catalog =
     (let catalog = replicate (nat BYTES_PER_SECTOR) 0;
          catalog = catalog[0x01 := word_of_int DOS33_CATALOG_TRACK];
          catalog = catalog[0x02 := word_of_int (DOS33_CATALOG_SECTOR + 1)]
      in catalog)"

definition format_dos33 :: "DiskImage \<Rightarrow> msg list \<times> (error + DiskImage)" where
  "format_dos33 d =
     (let out = [Formatting (name d)]
      in case set_sector d DOS33_VTOC_TRACK DOS33_VTOC_SECTOR format_vtoc of
           Inl e \<Rightarrow> (out, Inl e)
         | Inr d1 \<Rightarrow>
             (case set_sector d1 DOS33_CATALOG_TRACK DOS33_CATALOG_SECTOR format_catalog of
                Inl e \<Rightarrow> (out, Inl e)
              | Inr d2 \<Rightarrow> (out @ [FilesystemCreated], Inr d2)))"

text \<open>
  \<^verbatim>\<open>add_file_dos33\<close>: the name is cut to 30 characters and one line is printed; the
  body ends there (the source's comment: "For now, just report what we would do").
\<close>

definition add_file_dos33 ::
  "DiskImage \<Rightarrow> string \<Rightarrow> byte list \<Rightarrow> int \<Rightarrow> int \<Rightarrow> msg list \<times> (error + DiskImage)" where
  "add_file_dos33 d filename dat file_type load_address =
     (let filename = (if length filename > 30 then take 30 filename else filename)
      in ([AddingFile filename (length dat) file_type load_address], Inr d))"

text \<open>
  The bit of the free-sector bitmap that the loop of \<^verbatim>\<open>format_dos33\<close> addresses for a
  sector: byte \<open>0x38 + track * 4 + sector div 8\<close> of the VTOC, bit \<open>7 - sector mod 8\<close>.
  A set bit means free.
\<close>

definition bitmap_bit :: "byte list \<Rightarrow> nat \<Rightarrow> nat \<Rightarrow> bool" where
  "bitmap_bit vtoc track sector =
     bit (vtoc ! (0x38 + track * 4 + sector div 8)) (7 - sector mod 8)"

text \<open>
  The file system, as far as \<^verbatim>\<open>save\<close> and the verifier use it: a map from paths to
  file contents. \<^verbatim>\<open>save\<close> writes the buffer to the path.
\<close>

type_synonym filesystem = "string \<rightharpoonup> byte list"

definition save :: "DiskImage \<Rightarrow> string \<Rightarrow> filesystem \<Rightarrow> filesystem" where
  "save d output_path fs = fs(output_path \<mapsto> data d)"

text \<open>
  The buffer after the two writes of \<^verbatim>\<open>format_dos33\<close> (VTOC at track 17, sector 0,
  byte offset 69632; catalog at track 17, sector 1, byte offset 69888), used to state what
  formatting yields.
\<close>

definition formatted_data :: "byte list \<Rightarrow> byte list" where
  "formatted_data xs = take 69632 xs @ format_vtoc @ format_catalog @ drop 70144 xs"

subsection \<open>The verifier (verify\_disk.py)\<close>

text \<open>
  The lines \<^verbatim>\<open>verify_disk_image\<close> prints, one constructor for each
  \<^verbatim>\<open>print\<close> of the source, with the values it formats.
\<close>

datatype line =
    VerifyingHeader string
  | Separator
  | FileNotFound string
  | FileSize nat
  | SizeWarning
  | SizeDifference int
  | CorrectSize
  | BootSectorHeader
  | NonZeroBytes nat
  | BootContainsData
  | First16Bytes "byte list"
  | BootEmpty
  | VtocHeader
  | DosVersion byte
  | VolumeNumber byte
  | MaxTSPairs byte
  | Tracks byte
  | SectorsPerTrack byte
  | ValidVtoc
  | UnexpectedGeometry
  | CatalogHeader
  | NextCatalog byte byte
  | FileEntry nat string byte
  | FoundFiles nat
  | NoFiles
  | ValidImage
  | MayHaveIssues

text \<open>
  \<^verbatim>\<open>str.strip()\<close> on characters below 128 (the names are masked with \<open>0x7F\<close>):
  the white space of Python is 9 to 13 and 28 to 32.
\<close>

definition py_isspace :: "char \<Rightarrow> bool" where
  "py_isspace c = (let n = (of_char c :: nat) in (9 \<le> n \<and> n \<le> 13) \<or> (28 \<le> n \<and> n \<le> 32))"

definition py_strip :: "string \<Rightarrow> string" where
  "py_strip s = rev (dropWhile py_isspace (rev (dropWhile py_isspace s)))"

text \<open>
  The five reads \<^verbatim>\<open>vtoc[0x03]\<close>, \<^verbatim>\<open>vtoc[0x06]\<close>, \<^verbatim>\<open>vtoc[0x27]\<close>,
  \<^verbatim>\<open>vtoc[0x34]\<close>, \<^verbatim>\<open>vtoc[0x35]\<close>, in the source's order; nothing is printed
  between them, and the first that is out of range raises.
\<close>

definition read_vtoc_fields :: "byte list \<Rightarrow> error + (byte \<times> byte \<times> byte \<times> byte \<times> byte)" where
  "read_vtoc_fields vtoc =
     (case py_getitem vtoc 0x03 of Inl e \<Rightarrow> Inl e | Inr dos_version \<Rightarrow>
     (case py_getitem vtoc 0x06 of Inl e \<Rightarrow> Inl e | Inr volume_num \<Rightarrow>
     (case py_getitem vtoc 0x27 of Inl e \<Rightarrow> Inl e | Inr max_pairs \<Rightarrow>
     (case py_getitem vtoc 0x34 of Inl e \<Rightarrow> Inl e | Inr num_tracks \<Rightarrow>
     (case py_getitem vtoc 0x35 of Inl e \<Rightarrow> Inl e | Inr sectors_per_track \<Rightarrow>
        Inr (dos_version, volume_num, max_pairs, num_tracks, sectors_per_track))))))"

text \<open>
  The loop \<^verbatim>\<open>for i in range(7)\<close> over the entries of the catalog sector, with the
  counter \<^verbatim>\<open>file_entries\<close> and the lines printed so far as its state.
\<close>

fun count_entries :: "byte list \<Rightarrow> nat list \<Rightarrow> nat \<Rightarrow> line list \<Rightarrow> line list \<times> (error + nat)" where
  "count_entries catalog [] file_entries out = (out, Inr file_entries)"
| "count_entries catalog (i # rest) file_entries out =
     (let offset = 0x0B + int i * 0x23
      in case py_getitem catalog offset of
           Inl e \<Rightarrow> (out, Inl e)
         | Inr file_type \<Rightarrow>
             if file_type \<noteq> 0x00 \<and> file_type \<noteq> 0xFF
             then let file_entries = file_entries + 1;
                      filename_bytes = py_getslice catalog (offset + 0x03) (offset + 0x03 + 30);
                      filename = map (\<lambda>b. char_of (unat (b AND 0x7F))) (filter (\<lambda>b. b \<noteq> 0) filename_bytes)
                  in count_entries catalog rest file_entries
                       (out @ [FileEntry file_entries (py_strip filename) file_type])
             else count_entries catalog rest file_entries out)"

text \<open>
  The part of \<^verbatim>\<open>verify_disk_image\<close> from "Check catalog" to the end: it is given
  the size, the DOS version read from the VTOC and the lines printed so far.
\<close>

definition verify_catalog ::
  "byte list \<Rightarrow> nat \<Rightarrow> byte \<Rightarrow> line list \<Rightarrow> line list \<times> (error + bool)" where
  "verify_catalog dat size' dos_version out =
     (let out = out @ [CatalogHeader];
          catalog_offset = (17 * 16 + 1) * BYTES_PER_SECTOR;
          catalog = py_getslice dat catalog_offset (catalog_offset + BYTES_PER_SECTOR)
      in case py_getitem catalog 0x01 of Inl e \<Rightarrow> (out, Inl e) | Inr next_cat_track \<Rightarrow>
        (case py_getitem catalog 0x02 of Inl e \<Rightarrow> (out, Inl e) | Inr next_cat_sector \<Rightarrow>
        (case count_entries catalog [0..<7] 0 (out @ [NextCatalog next_cat_track next_cat_sector]) of
           (out, Inl e) \<Rightarrow> (out, Inl e)
         | (out, Inr file_entries) \<Rightarrow>
             let out = out @ (if file_entries > 0 then [FoundFiles file_entries] else [NoFiles]);
                 out = out @ [Separator]
             in if int size' = DISK_SIZE \<and> dos_version = 3
                then (out @ [ValidImage], Inr True)
                else (out @ [MayHaveIssues], Inr False))))"

text \<open>
  \<^verbatim>\<open>verify_disk_image\<close>. The file at \<^verbatim>\<open>disk_path\<close> is looked up in the file
  system; its size is the length of its contents. The header line carries the path (the
  source prints its last component). The script's own constants
  \<^verbatim>\<open>DISK_SIZE = 143360\<close> and \<^verbatim>\<open>BYTES_PER_SECTOR = 256\<close> have the values of
  those of make\_disk\_image.py, which are used here.
\<close>

definition verify_disk_image :: "filesystem \<Rightarrow> string \<Rightarrow> line list \<times> (error + bool)" where
  "verify_disk_image fs disk_path =
     (let out = [VerifyingHeader disk_path, Separator]
      in case fs disk_path of
           None \<Rightarrow> (out @ [FileNotFound disk_path], Inr False)
         | Some dat \<Rightarrow>
             let size' = length dat;
                 out = out @ [FileSize size'];
                 out = out @ (if int size' \<noteq> DISK_SIZE
                              then [SizeWarning, SizeDifference (int size' - DISK_SIZE)]
                              else [CorrectSize]);
                 out = out @ [BootSectorHeader];
                 boot_sector = py_getslice dat 0 BYTES_PER_SECTOR;
                 non_zero = length (filter (\<lambda>b. b \<noteq> 0) boot_sector);
                 out = out @ [NonZeroBytes non_zero];
                 out = out @ (if non_zero > 0
                              then [BootContainsData, First16Bytes (py_getslice boot_sector 0 16)]
                              else [BootEmpty]);
                 out = out @ [VtocHeader];
                 vtoc_offset = (17 * 16 + 0) * BYTES_PER_SECTOR;
                 vtoc = py_getslice dat vtoc_offset (vtoc_offset + BYTES_PER_SECTOR)
             in (case read_vtoc_fields vtoc of
                  Inl e \<Rightarrow> (out, Inl e)
                | Inr (dos_version, volume_num, max_pairs, num_tracks, sectors_per_track) \<Rightarrow>
                    let out = out @ [DosVersion dos_version, VolumeNumber volume_num,
                                     MaxTSPairs max_pairs, Tracks num_tracks,
                                     SectorsPerTrack sectors_per_track];
                        out = out @ (if num_tracks = 35 \<and> sectors_per_track = 16
                                     then [ValidVtoc] else [UnexpectedGeometry])
                    in verify_catalog dat size' dos_version out))"

section \<open>Properties\<close>

lemmas geometry_defs =
  TRACKS_PER_DISK_def SECTORS_PER_TRACK_def BYTES_PER_SECTOR_def DISK_SIZE_def
  DOS33_VTOC_TRACK_def DOS33_VTOC_SECTOR_def DOS33_CATALOG_TRACK_def DOS33_CATALOG_SECTOR_def

subsection \<open>Slices and indices inside the sequence\<close>

lemma slice_bound_nonneg: "0 \<le> i \<Longrightarrow> i \<le> int n \<Longrightarrow> slice_bound i n = nat i"
  by (simp add: slice_bound_def)

lemma slice_bound_neg: "i < 0 \<Longrightarrow> 0 \<le> i + int n \<Longrightarrow> slice_bound i n = nat (i + int n)"
  by (simp add: slice_bound_def)

lemma py_getslice_inside:
  "0 \<le> a \<Longrightarrow> a < b \<Longrightarrow> b \<le> int (length xs) \<Longrightarrow>
   py_getslice xs a b = take (nat (b - a)) (drop (nat a) xs)"
  by (simp add: py_getslice_def slice_bound_nonneg Let_def nat_diff_distrib)

lemma py_setslice_inside:
  "0 \<le> a \<Longrightarrow> a \<le> b \<Longrightarrow> b \<le> int (length xs) \<Longrightarrow>
   py_setslice xs a b ys = take (nat a) xs @ ys @ drop (nat b) xs"
  by (simp add: py_setslice_def slice_bound_nonneg Let_def)

lemma py_getitem_inside:
  "0 \<le> i \<Longrightarrow> i < int (length xs) \<Longrightarrow> py_getitem xs i = Inr (xs ! nat i)"
  by (simp add: py_getitem_def Let_def)

lemma py_getitem_outside:
  "int (length xs) \<le> i \<Longrightarrow> py_getitem xs i = Inl IndexError"
  by (simp add: py_getitem_def Let_def)

subsection \<open>The sector offset map\<close>

lemma sector_offset_range:
  assumes "valid_address t s"
  shows "0 \<le> sector_offset t s \<and> sector_offset t s + BYTES_PER_SECTOR \<le> DISK_SIZE"
proof -
  have "0 \<le> t" "t \<le> 34" "0 \<le> s" "s \<le> 15"
    using assms by (simp_all add: valid_address_def geometry_defs)
  then show ?thesis
    by (simp add: sector_offset_def geometry_defs)
qed

lemma set_sector_valid:
  assumes v: "valid_address t s" and p: "length p \<le> 256"
    and n: "int (length (data d)) = DISK_SIZE"
  shows "set_sector d t s p =
         Inr (d\<lparr>data := take (nat (sector_offset t s)) (data d) @ p @
                         drop (nat (sector_offset t s) + length p) (data d)\<rparr>)"
proof -
  have r: "0 \<le> sector_offset t s" "sector_offset t s + 256 \<le> int (length (data d))"
    using sector_offset_range [OF v] n by (simp_all add: geometry_defs)
  have "py_setslice (data d) (sector_offset t s) (sector_offset t s + int (length p)) p =
        take (nat (sector_offset t s)) (data d) @ p @ drop (nat (sector_offset t s + int (length p))) (data d)"
    using r p by (intro py_setslice_inside) simp_all
  moreover have "nat (sector_offset t s + int (length p)) = nat (sector_offset t s) + length p"
    using r by (simp add: nat_add_distrib)
  ultimately show ?thesis
    using v p by (simp add: set_sector_def valid_address_def geometry_defs Let_def)
qed

lemma get_sector_valid:
  assumes v: "valid_address t s" and n: "int (length (data d)) = DISK_SIZE"
  shows "get_sector d t s = Inr (take 256 (drop (nat (sector_offset t s)) (data d)))"
proof -
  have r: "0 \<le> sector_offset t s" "sector_offset t s + 256 \<le> int (length (data d))"
    using sector_offset_range [OF v] n by (simp_all add: geometry_defs)
  have "py_getslice (data d) (sector_offset t s) (sector_offset t s + 256) =
        take (nat (sector_offset t s + 256 - sector_offset t s)) (drop (nat (sector_offset t s)) (data d))"
    using r by (intro py_getslice_inside) simp_all
  then show ?thesis
    using v by (simp add: get_sector_def valid_address_def geometry_defs Let_def)
qed


lemma sector_offset_index:
  assumes "valid_address t s" "sector_offset t s \<le> i" "i < sector_offset t s + BYTES_PER_SECTOR"
  shows "t = i div 256 div 16 \<and> s = i div 256 mod 16"
proof -
  let ?k = "t * 16 + s"
  have i: "i = 256 * ?k + (i - 256 * ?k)" by simp
  have lo: "0 \<le> i - 256 * ?k" and hi: "i - 256 * ?k < 256"
    using assms(2,3) by (simp_all add: sector_offset_def geometry_defs)
  have k: "i div 256 = ?k"
    by (rule int_div_pos_eq [OF i lo hi])
  have s: "0 \<le> s" "s < 16" using assms(1) by (simp_all add: valid_address_def geometry_defs)
  have "?k div 16 = t" "?k mod 16 = s"
    by (rule int_div_pos_eq [of _ 16 t s], simp, rule s, rule s)
       (rule int_mod_pos_eq [of _ 16 t s], simp, rule s, rule s)
  with k show ?thesis by simp
qed

lemma sector_offset_inj:
  assumes "valid_address t s" "valid_address t' s'" "sector_offset t s = sector_offset t' s'"
  shows "t = t' \<and> s = s'"
proof -
  have a: "sector_offset t s \<le> sector_offset t s" "sector_offset t s < sector_offset t s + BYTES_PER_SECTOR"
    by (simp_all add: geometry_defs)
  have b: "sector_offset t' s' \<le> sector_offset t s" "sector_offset t s < sector_offset t' s' + BYTES_PER_SECTOR"
    using assms(3) by (simp_all add: geometry_defs)
  show ?thesis
    using sector_offset_index [OF assms(1) a] sector_offset_index [OF assms(2) b] by simp
qed

lemma sector_offset_cover:
  assumes "0 \<le> i" "i < DISK_SIZE"
  shows "valid_address (i div 256 div 16) (i div 256 mod 16) \<and>
         sector_offset (i div 256 div 16) (i div 256 mod 16) \<le> i \<and>
         i < sector_offset (i div 256 div 16) (i div 256 mod 16) + BYTES_PER_SECTOR"
proof -
  have "i div 256 < 560" using assms(2) by (simp add: geometry_defs)
  then have "i div 256 div 16 < 35" by simp
  moreover have "0 \<le> i div 256 div 16" using assms(1) by simp
  ultimately have v: "valid_address (i div 256 div 16) (i div 256 mod 16)"
    by (simp add: valid_address_def geometry_defs)
  have e: "sector_offset (i div 256 div 16) (i div 256 mod 16) = i - i mod 256"
    by (simp add: sector_offset_def geometry_defs minus_mod_eq_mult_div [symmetric] mult.commute)
  have "0 \<le> i mod 256" "i mod 256 < 256" by simp_all
  with v e show ?thesis by (simp add: geometry_defs)
qed

lemma card_valid_address: "card {(t, s). valid_address t s} = 560"
proof -
  have "{(t, s). valid_address t s} = {0..<TRACKS_PER_DISK} \<times> {0..<SECTORS_PER_TRACK}"
    by (auto simp: valid_address_def)
  then show ?thesis by (simp add: geometry_defs)
qed

text \<open>
  Claim C4. On the sector addresses with \<open>0 \<le> track < 35\<close> and \<open>0 \<le> sector < 16\<close>
  the offset map \<open>(track * 16 + sector) * 256\<close> is injective; each of the 560 addresses
  owns the 256 bytes from its offset on, every such region lies in \<open>[0, 143360)\<close>, and
  every byte offset of \<open>[0, 143360)\<close> lies in the region of exactly one address: the
  regions partition the image with no gap and no overlap.
\<close>

theorem sector_offset_partition:
  "(valid_address t s \<and> valid_address t' s' \<and> sector_offset t s = sector_offset t' s'
      \<longrightarrow> t = t' \<and> s = s')
   \<and> (valid_address t s
      \<longrightarrow> 0 \<le> sector_offset t s \<and> sector_offset t s + BYTES_PER_SECTOR \<le> DISK_SIZE)
   \<and> (0 \<le> i \<and> i < DISK_SIZE
      \<longrightarrow> (\<exists>t s. valid_address t s
                 \<and> sector_offset t s \<le> i \<and> i < sector_offset t s + BYTES_PER_SECTOR
                 \<and> (\<forall>t' s'. valid_address t' s'
                        \<and> sector_offset t' s' \<le> i \<and> i < sector_offset t' s' + BYTES_PER_SECTOR
                      \<longrightarrow> t' = t \<and> s' = s)))
   \<and> card {(t, s). valid_address t s} = 560
   \<and> DISK_SIZE = 143360 \<and> BYTES_PER_SECTOR = 256"
proof (intro conjI impI)
  assume "valid_address t s \<and> valid_address t' s' \<and> sector_offset t s = sector_offset t' s'"
  then show "t = t'" "s = s'" using sector_offset_inj by blast+
next
  assume "valid_address t s"
  then show "0 \<le> sector_offset t s" "sector_offset t s + BYTES_PER_SECTOR \<le> DISK_SIZE"
    using sector_offset_range by blast+
next
  assume i: "0 \<le> i \<and> i < DISK_SIZE"
  let ?t = "i div 256 div 16" and ?s = "i div 256 mod 16"
  have c: "valid_address ?t ?s \<and> sector_offset ?t ?s \<le> i \<and> i < sector_offset ?t ?s + BYTES_PER_SECTOR"
    using sector_offset_cover i by blast
  have "\<forall>t' s'. valid_address t' s' \<and> sector_offset t' s' \<le> i \<and> i < sector_offset t' s' + BYTES_PER_SECTOR
          \<longrightarrow> t' = ?t \<and> s' = ?s"
    using sector_offset_index by blast
  with c show "\<exists>t s. valid_address t s
                 \<and> sector_offset t s \<le> i \<and> i < sector_offset t s + BYTES_PER_SECTOR
                 \<and> (\<forall>t' s'. valid_address t' s'
                        \<and> sector_offset t' s' \<le> i \<and> i < sector_offset t' s' + BYTES_PER_SECTOR
                      \<longrightarrow> t' = t \<and> s' = s)"
    by blast
next
  show "card {(t, s). valid_address t s} = 560" by (rule card_valid_address)
qed (simp_all add: geometry_defs)

theorem sector_offset_partition_witness:
  "valid_address 3 5 \<and> sector_offset 3 5 = 13568
   \<and> 0 \<le> sector_offset 3 5 \<and> sector_offset 3 5 + BYTES_PER_SECTOR \<le> DISK_SIZE
   \<and> (0::int) \<le> 13570 \<and> 13570 < DISK_SIZE
   \<and> (\<exists>t s. valid_address t s
          \<and> sector_offset t s \<le> 13570 \<and> 13570 < sector_offset t s + BYTES_PER_SECTOR
          \<and> (\<forall>t' s'. valid_address t' s'
                 \<and> sector_offset t' s' \<le> 13570 \<and> 13570 < sector_offset t' s' + BYTES_PER_SECTOR
               \<longrightarrow> t' = t \<and> s' = s))"
proof -
  have v: "valid_address 3 5" by (simp add: valid_address_def geometry_defs)
  have i: "(0::int) \<le> 13570 \<and> 13570 < DISK_SIZE" by (simp add: geometry_defs)
  have o: "sector_offset 3 5 = 13568" by (simp add: sector_offset_def geometry_defs)
  show ?thesis
    using sector_offset_partition [of 3 5 3 5 13570] v i o by blast
qed

subsection \<open>Reading and writing a sector\<close>

lemma nth_splice:
  assumes "a + length p \<le> length xs" "j < length xs"
  shows "(take a xs @ p @ drop (a + length p) xs) ! j =
         (if a \<le> j \<and> j < a + length p then p ! (j - a) else xs ! j)"
  using assms by (auto simp: nth_append min_def)

lemma length_splice:
  "a + length p \<le> length xs \<Longrightarrow> length (take a xs @ p @ drop (a + length p) xs) = length xs"
  by simp

lemma length_DiskImage_init: "int (length (data (DiskImage_init fmt nm))) = DISK_SIZE"
  by (simp add: DiskImage_init_def geometry_defs)

lemma negative_track_get:
  assumes "int (length (data d)) = DISK_SIZE"
  shows "get_sector d (- 1) 0 = Inr (take 256 (drop 139264 (data d)))"
proof -
  have n: "length (data d) = 143360" using assms by (simp add: geometry_defs)
  show ?thesis
    by (simp add: get_sector_def py_getslice_def slice_bound_def sector_offset_def
        geometry_defs Let_def n)
qed

lemma negative_track_set:
  assumes "int (length (data d)) = DISK_SIZE" "length p \<le> 256"
  shows "set_sector d (- 1) 0 p =
         Inr (d\<lparr>data := take 139264 (data d) @ p @ drop (139264 + length p) (data d)\<rparr>)"
proof -
  have n: "length (data d) = 143360" using assms by (simp add: geometry_defs)
  have a: "slice_bound (- 4096) 143360 = 139264" by (simp add: slice_bound_def)
  have "slice_bound (int (length p) - 4096) 143360 = nat (int (length p) + 139264)"
    using assms(2) by (simp add: slice_bound_def)
  also have "\<dots> = 139264 + length p" by linarith
  finally have b: "slice_bound (int (length p) - 4096) 143360 = 139264 + length p" .
  show ?thesis
    using assms(2) by (simp add: set_sector_def py_setslice_def sector_offset_def
        geometry_defs Let_def n a b)
qed

text \<open>
  Claim C5, as amended. \<^verbatim>\<open>get_sector\<close> and \<^verbatim>\<open>set_sector\<close> fail with the
  invalid-address error (the specification's OutOfRange) when \<open>track \<ge> 35\<close> or
  \<open>sector \<ge> 16\<close>; \<^verbatim>\<open>set_sector\<close> fails with the data-too-large error (the
  specification's SectorOverflow) when the address passes that test and the payload is longer
  than 256 bytes; and a successful write of a payload \<open>p\<close> at an address with
  \<open>0 \<le> track\<close> and \<open>0 \<le> sector\<close> into the 143,360-byte image keeps the length of the
  image, puts \<open>p\<close> at the offsets from \<open>(track * 16 + sector) * 256\<close> on and leaves
  every other byte as it was. (For a negative track or sector the write succeeds too, but
  touches other bytes: see the counterexample below and claim C10.)
\<close>

theorem sector_access_contract:
  "(track \<ge> TRACKS_PER_DISK \<or> sector \<ge> SECTORS_PER_TRACK \<longrightarrow>
      get_sector d track sector = Inl (InvalidTrackSector track sector) \<and>
      set_sector d track sector p = Inl (InvalidTrackSector track sector))
   \<and> (track < TRACKS_PER_DISK \<and> sector < SECTORS_PER_TRACK \<and> int (length p) > BYTES_PER_SECTOR \<longrightarrow>
      set_sector d track sector p = Inl (DataTooLarge (length p)))
   \<and> (valid_address track sector \<and> int (length (data d)) = DISK_SIZE \<and>
      set_sector d track sector p = Inr d' \<longrightarrow>
        length (data d') = length (data d) \<and>
        (\<forall>j < length (data d).
           data d' ! j =
             (if sector_offset track sector \<le> int j \<and>
                 int j < sector_offset track sector + int (length p)
              then p ! (j - nat (sector_offset track sector)) else data d ! j)))"
proof (intro conjI impI)
  assume "track \<ge> TRACKS_PER_DISK \<or> sector \<ge> SECTORS_PER_TRACK"
  then show "get_sector d track sector = Inl (InvalidTrackSector track sector)"
    and "set_sector d track sector p = Inl (InvalidTrackSector track sector)"
    by (simp_all add: get_sector_def set_sector_def)
next
  assume "track < TRACKS_PER_DISK \<and> sector < SECTORS_PER_TRACK \<and> int (length p) > BYTES_PER_SECTOR"
  then show "set_sector d track sector p = Inl (DataTooLarge (length p))"
    by (simp add: set_sector_def)
next
  assume h: "valid_address track sector \<and> int (length (data d)) = DISK_SIZE \<and>
      set_sector d track sector p = Inr d'"
  let ?a = "nat (sector_offset track sector)"
  have p: "length p \<le> 256"
    using h by (auto simp: set_sector_def geometry_defs split: if_splits)
  have r: "0 \<le> sector_offset track sector" "sector_offset track sector + 256 \<le> int (length (data d))"
    using sector_offset_range [of track sector] h by (simp_all add: geometry_defs)
  have fit: "?a + length p \<le> length (data d)" using r p by linarith
  have d': "data d' = take ?a (data d) @ p @ drop (?a + length p) (data d)"
    using h set_sector_valid [of track sector p d] p by auto
  show "length (data d') = length (data d)"
    unfolding d' using fit by (rule length_splice)
  show "\<forall>j < length (data d).
           data d' ! j =
             (if sector_offset track sector \<le> int j \<and>
                 int j < sector_offset track sector + int (length p)
              then p ! (j - nat (sector_offset track sector)) else data d ! j)"
  proof (intro allI impI)
    fix j assume j: "j < length (data d)"
    have c: "(sector_offset track sector \<le> int j \<and>
                 int j < sector_offset track sector + int (length p)) \<longleftrightarrow>
             (?a \<le> j \<and> j < ?a + length p)"
      using r by linarith
    show "data d' ! j =
             (if sector_offset track sector \<le> int j \<and>
                 int j < sector_offset track sector + int (length p)
              then p ! (j - nat (sector_offset track sector)) else data d ! j)"
      unfolding d' c using nth_splice [OF fit j] .
  qed
qed

text \<open>
  The three parts at concrete inputs on a new image: an address out of range, a payload of
  257 bytes, and a write of two bytes at track 17, sector 1.
\<close>

theorem sector_access_contract_witness:
  "get_sector (DiskImage_init ''dos33'' ''DISK'') 35 0 = Inl (InvalidTrackSector 35 0)
   \<and> set_sector (DiskImage_init ''dos33'' ''DISK'') 35 0 [1] = Inl (InvalidTrackSector 35 0)
   \<and> set_sector (DiskImage_init ''dos33'' ''DISK'') 0 0 (replicate 257 0) = Inl (DataTooLarge 257)
   \<and> valid_address 17 1
   \<and> int (length (data (DiskImage_init ''dos33'' ''DISK''))) = DISK_SIZE
   \<and> set_sector (DiskImage_init ''dos33'' ''DISK'') 17 1 [1, 2] =
       Inr ((DiskImage_init ''dos33'' ''DISK'')
              \<lparr>data := replicate 69888 0 @ [1, 2] @ replicate 73470 0\<rparr>)
   \<and> length (replicate 69888 0 @ [1, 2] @ replicate 73470 (0::byte)) =
       length (data (DiskImage_init ''dos33'' ''DISK''))
   \<and> (replicate 69888 0 @ [1, 2] @ replicate 73470 (0::byte)) ! 69888 = 1
   \<and> (replicate 69888 0 @ [1, 2] @ replicate 73470 (0::byte)) ! 69889 = 2
   \<and> (replicate 69888 0 @ [1, 2] @ replicate 73470 (0::byte)) ! 69890 =
       data (DiskImage_init ''dos33'' ''DISK'') ! 69890
   \<and> (replicate 69888 0 @ [1, 2] @ replicate 73470 (0::byte)) ! 69887 =
       data (DiskImage_init ''dos33'' ''DISK'') ! 69887"
proof -
  let ?D = "DiskImage_init ''dos33'' ''DISK''"
  let ?D' = "?D\<lparr>data := replicate 69888 0 @ [1, 2] @ replicate 73470 0\<rparr>"
  have h1: "(35::int) \<ge> TRACKS_PER_DISK \<or> (0::int) \<ge> SECTORS_PER_TRACK"
    by (simp add: geometry_defs)
  have h2: "(0::int) < TRACKS_PER_DISK \<and> (0::int) < SECTORS_PER_TRACK \<and>
            int (length (replicate 257 (0::byte))) > BYTES_PER_SECTOR"
    by (simp add: geometry_defs)
  have v: "valid_address 17 1" by (simp add: valid_address_def geometry_defs)
  have n: "int (length (data ?D)) = DISK_SIZE" by (rule length_DiskImage_init)
  have o: "nat (sector_offset 17 1) = 69888" "sector_offset 17 1 = 69888"
    by (simp_all add: sector_offset_def geometry_defs)
  have w: "set_sector ?D 17 1 [1, 2] = Inr ?D'"
    by (simp add: set_sector_valid [OF v _ n] o) (simp add: DiskImage_init_def geometry_defs)
  have d': "data ?D' = replicate 69888 0 @ [1, 2] @ replicate 73470 0" by simp
  have l: "length (replicate 257 (0::byte)) = 257" by simp
  have len: "length (data ?D) = 143360" using n by (simp add: geometry_defs)
  have a: "get_sector ?D 35 0 = Inl (InvalidTrackSector 35 0)
           \<and> set_sector ?D 35 0 [1] = Inl (InvalidTrackSector 35 0)"
    using sector_access_contract [of 35 0 ?D "[1]" ?D'] h1 by blast
  have b: "set_sector ?D 0 0 (replicate 257 0) = Inl (DataTooLarge 257)"
    using sector_access_contract [of 0 0 ?D "replicate 257 0" ?D'] h2 unfolding l by blast
  have c: "length (data ?D') = length (data ?D) \<and>
        (\<forall>j < length (data ?D).
           data ?D' ! j =
             (if sector_offset 17 1 \<le> int j \<and> int j < sector_offset 17 1 + int (length [1, 2::byte])
              then [1, 2] ! (j - nat (sector_offset 17 1)) else data ?D ! j))"
    using sector_access_contract [of 17 1 ?D "[1, 2]" ?D'] v n w by blast
  then have e: "data ?D' ! 69888 = 1" "data ?D' ! 69889 = 2"
    "data ?D' ! 69890 = data ?D ! 69890" "data ?D' ! 69887 = data ?D ! 69887"
    unfolding len o by simp_all
  show ?thesis
    using a b c e v n w unfolding d' by blast
qed

text \<open>
  The claim as first stated, for every successful write, fails. A write of one byte at
  track \<open>-1\<close>, sector 0 of a new image succeeds and changes the byte at position 139264,
  which is not among the offsets from \<open>(track * 16 + sector) * 256 = -4096\<close> on. A write
  of 256 bytes at track 0, sector \<open>-1\<close> succeeds as well: its slice runs from
  \<open>-256\<close> to \<open>0\<close> and is empty, so the payload is inserted before the last 256 bytes
  and the image grows to 143,616 bytes. And a payload of 257 bytes at an address out of
  range is answered with the invalid-address error, not with the data-too-large one.
\<close>

theorem sector_write_frame_counterexample:
  "set_sector (DiskImage_init ''dos33'' ''DISK'') (- 1) 0 [1] =
     Inr ((DiskImage_init ''dos33'' ''DISK'')
            \<lparr>data := replicate 139264 0 @ [1] @ replicate 4095 0\<rparr>)
   \<and> (replicate 139264 0 @ [1] @ replicate 4095 (0::byte)) ! 139264 = 1
   \<and> data (DiskImage_init ''dos33'' ''DISK'') ! 139264 = 0
   \<and> \<not> (sector_offset (- 1) 0 \<le> 139264 \<and>
         139264 < sector_offset (- 1) 0 + int (length [1::byte]))
   \<and> set_sector (DiskImage_init ''dos33'' ''DISK'') 0 (- 1) (replicate 256 1) =
       Inr ((DiskImage_init ''dos33'' ''DISK'')
              \<lparr>data := replicate 143104 0 @ replicate 256 1 @ replicate 256 0\<rparr>)
   \<and> length (replicate 143104 0 @ replicate 256 1 @ replicate 256 (0::byte)) = 143616
   \<and> length (data (DiskImage_init ''dos33'' ''DISK'')) = 143360
   \<and> set_sector (DiskImage_init ''dos33'' ''DISK'') 35 0 (replicate 257 0) =
       Inl (InvalidTrackSector 35 0)"
proof -
  let ?D = "DiskImage_init ''dos33'' ''DISK''"
  have n: "int (length (data ?D)) = DISK_SIZE" by (rule length_DiskImage_init)
  have "set_sector ?D (- 1) 0 [1] =
        Inr (?D\<lparr>data := take 139264 (data ?D) @ [1] @ drop (139264 + length [1::byte]) (data ?D)\<rparr>)"
    by (rule negative_track_set [OF n]) simp
  then have a: "set_sector ?D (- 1) 0 [1] =
     Inr (?D\<lparr>data := replicate 139264 0 @ [1] @ replicate 4095 0\<rparr>)"
    by (simp add: DiskImage_init_def geometry_defs)
  have b: "(replicate 139264 0 @ [1] @ replicate 4095 (0::byte)) ! 139264 = 1"
    by (simp add: nth_append)
  have c: "data ?D ! 139264 = 0" by (simp add: DiskImage_init_def geometry_defs)
  have e: "\<not> (sector_offset (- 1) 0 \<le> 139264 \<and>
         139264 < sector_offset (- 1) 0 + int (length [1::byte]))"
    by (simp add: sector_offset_def geometry_defs)
  have g: "set_sector ?D 0 (- 1) (replicate 256 1) =
       Inr (?D\<lparr>data := replicate 143104 0 @ replicate 256 1 @ replicate 256 0\<rparr>)"
    by (simp add: set_sector_def py_setslice_def slice_bound_def sector_offset_def
        geometry_defs Let_def DiskImage_init_def)
  have h: "length (replicate 143104 0 @ replicate 256 1 @ replicate 256 (0::byte)) = 143616"
    "length (data ?D) = 143360"
    by (simp_all add: DiskImage_init_def geometry_defs)
  have f: "set_sector ?D 35 0 (replicate 257 0) = Inl (InvalidTrackSector 35 0)"
    by (simp add: set_sector_def geometry_defs)
  from a b c e f g h show ?thesis by blast
qed

text \<open>
  Claim C10. \<^verbatim>\<open>get_sector\<close> and \<^verbatim>\<open>set_sector\<close> test the upper bounds only. With
  track \<open>-1\<close> and sector 0 neither raises on a 143,360-byte image: the offset is
  \<open>-4096\<close>, the read returns the 256 bytes from position \<open>143360 - 4096 = 139264\<close>,
  and the write of a payload of at most 256 bytes replaces the bytes from that position
  on, 4096 bytes before the end of the buffer.
\<close>

theorem negative_track_not_rejected:
  assumes "int (length (data d)) = DISK_SIZE" "length p \<le> 256"
  shows "sector_offset (- 1) 0 = - 4096
       \<and> get_sector d (- 1) 0 = Inr (take 256 (drop 139264 (data d)))
       \<and> set_sector d (- 1) 0 p =
           Inr (d\<lparr>data := take 139264 (data d) @ p @ drop (139264 + length p) (data d)\<rparr>)
       \<and> int (139264::nat) = DISK_SIZE - 4096"
  using negative_track_get [OF assms(1)] negative_track_set [OF assms]
  by (simp add: sector_offset_def geometry_defs)

text \<open>The same at a concrete input: one byte written at track \<open>-1\<close> of a new image.\<close>

theorem negative_track_not_rejected_witness:
  "int (length (data (DiskImage_init ''dos33'' ''DISK''))) = DISK_SIZE
   \<and> length [7::byte] \<le> 256
   \<and> get_sector (DiskImage_init ''dos33'' ''DISK'') (- 1) 0 = Inr (replicate 256 0)
   \<and> set_sector (DiskImage_init ''dos33'' ''DISK'') (- 1) 0 [7] =
       Inr ((DiskImage_init ''dos33'' ''DISK'')
              \<lparr>data := replicate 139264 0 @ [7] @ replicate 4095 0\<rparr>)"
proof -
  let ?D = "DiskImage_init ''dos33'' ''DISK''"
  have n: "int (length (data ?D)) = DISK_SIZE" by (rule length_DiskImage_init)
  have p: "length [7::byte] \<le> 256" by simp
  have t: "take 256 (drop 139264 (data ?D)) = replicate 256 0"
    "take 139264 (data ?D) @ [7] @ drop (139264 + length [7::byte]) (data ?D) =
       replicate 139264 0 @ [7] @ replicate 4095 0"
    by (simp_all add: DiskImage_init_def geometry_defs)
  show ?thesis
    using negative_track_not_rejected [OF n p] n p unfolding t by blast
qed

subsection \<open>Formatting\<close>

lemma range_16: "[0..<16] = [0, 1, 2, 3, 4, 5, 6, 7, 8, 9, 10, 11, 12, 13, 14, 15::nat]"
  by (simp add: upt_conv_Cons)

lemma length_format_vtoc: "length format_vtoc = 256"
  by (simp add: format_vtoc_def mark_used_def geometry_defs Let_def range_16)

lemma format_vtoc_nth:
  "j < 256 \<Longrightarrow> format_vtoc ! j =
     (if j = 1 then 17 else if j = 2 then 1 else if j = 3 then 3 else if j = 6 then 254
      else if j = 0x27 then 122 else if j = 0x30 then 1 else if j = 0x34 then 35
      else if j = 0x35 then 16 else if j = 0x37 then 1 else 0)"
  by (simp add: format_vtoc_def mark_used_def geometry_defs Let_def nth_list_update range_16)

lemma length_format_catalog: "length format_catalog = 256"
  by (simp add: format_catalog_def geometry_defs Let_def)

lemma format_catalog_nth:
  "j < 256 \<Longrightarrow> format_catalog ! j = (if j = 1 then 17 else if j = 2 then 2 else 0)"
  by (simp add: format_catalog_def geometry_defs Let_def nth_list_update)

lemma format_vtoc_bitmap_clear:
  assumes "track < 35" "sector < 16"
  shows "\<not> bitmap_bit format_vtoc track sector"
proof -
  let ?j = "0x38 + track * 4 + sector div 8"
  have "sector div 8 < 2" using assms(2) by simp
  then have j: "56 \<le> ?j" "?j < 256" using assms(1) by simp_all
  then have "format_vtoc ! ?j = 0" by (simp add: format_vtoc_nth)
  then show ?thesis by (simp add: bitmap_bit_def)
qed

lemma format_dos33_result:
  assumes n: "int (length (data d)) = DISK_SIZE"
  shows "format_dos33 d =
         ([Formatting (name d), FilesystemCreated], Inr (d\<lparr>data := formatted_data (data d)\<rparr>))"
proof -
  have len: "length (data d) = 143360" using n by (simp add: geometry_defs)
  have v0: "valid_address 17 0" and v1: "valid_address 17 1"
    by (simp_all add: valid_address_def geometry_defs)
  have o: "nat (sector_offset 17 0) = 69632" "nat (sector_offset 17 1) = 69888"
    by (simp_all add: sector_offset_def geometry_defs)
  let ?d1 = "d\<lparr>data := take 69632 (data d) @ format_vtoc @ drop 69888 (data d)\<rparr>"
  have s1: "set_sector d 17 0 format_vtoc = Inr ?d1"
    using set_sector_valid [OF v0 _ n, of format_vtoc] by (simp add: length_format_vtoc o)
  have n1: "int (length (data ?d1)) = DISK_SIZE"
    by (simp add: length_format_vtoc len geometry_defs)
  have s2: "set_sector ?d1 17 1 format_catalog = Inr (d\<lparr>data := formatted_data (data d)\<rparr>)"
    using set_sector_valid [OF v1 _ n1, of format_catalog]
    by (simp add: length_format_catalog length_format_vtoc o len formatted_data_def)
  show ?thesis
    by (simp add: format_dos33_def geometry_defs s1 s2)
qed

lemma length_formatted_data: "length xs = 143360 \<Longrightarrow> length (formatted_data xs) = 143360"
  by (simp add: formatted_data_def length_format_vtoc length_format_catalog)

lemma vtoc_of_formatted_data:
  "length xs = 143360 \<Longrightarrow> take 256 (drop 69632 (formatted_data xs)) = format_vtoc"
  by (simp add: formatted_data_def length_format_vtoc)

lemma catalog_of_formatted_data:
  "length xs = 143360 \<Longrightarrow> take 256 (drop 69888 (formatted_data xs)) = format_catalog"
  by (simp add: formatted_data_def length_format_vtoc length_format_catalog)

lemma get_sector_formatted:
  assumes n: "int (length (data d)) = DISK_SIZE"
  shows "get_sector (d\<lparr>data := formatted_data (data d)\<rparr>) 17 0 = Inr format_vtoc"
    and "get_sector (d\<lparr>data := formatted_data (data d)\<rparr>) 17 1 = Inr format_catalog"
proof -
  have len: "length (data d) = 143360" using n by (simp add: geometry_defs)
  have v0: "valid_address 17 0" and v1: "valid_address 17 1"
    by (simp_all add: valid_address_def geometry_defs)
  have o: "nat (sector_offset 17 0) = 69632" "nat (sector_offset 17 1) = 69888"
    by (simp_all add: sector_offset_def geometry_defs)
  have n': "int (length (data (d\<lparr>data := formatted_data (data d)\<rparr>))) = DISK_SIZE"
    by (simp add: length_formatted_data len geometry_defs)
  show "get_sector (d\<lparr>data := formatted_data (data d)\<rparr>) 17 0 = Inr format_vtoc"
    by (simp add: get_sector_valid [OF v0 n'] o vtoc_of_formatted_data len)
  show "get_sector (d\<lparr>data := formatted_data (data d)\<rparr>) 17 1 = Inr format_catalog"
    by (simp add: get_sector_valid [OF v1 n'] o catalog_of_formatted_data len)
qed

text \<open>
  Claim C6. After \<^verbatim>\<open>format_dos33\<close> on a 143,360-byte image, the sector read back at
  track 17, sector 0 holds the header of the VTOC: byte \<open>0x01\<close> is the first catalog
  track 17, byte \<open>0x02\<close> the first catalog sector 1, byte \<open>0x03\<close> the DOS version 3,
  byte \<open>0x34\<close> the track count 35, byte \<open>0x35\<close> the 16 sectors of a track, and bytes
  \<open>0x36\<close> and \<open>0x37\<close> are 0 and 1, the little-endian pair of 256 bytes per sector.
\<close>

theorem format_writes_vtoc_header:
  assumes "int (length (data d)) = DISK_SIZE"
  shows "\<exists>d' vtoc. snd (format_dos33 d) = Inr d' \<and> get_sector d' 17 0 = Inr vtoc
           \<and> length vtoc = 256
           \<and> vtoc ! 0x01 = 17 \<and> vtoc ! 0x02 = 1 \<and> vtoc ! 0x03 = 3
           \<and> vtoc ! 0x34 = 35 \<and> vtoc ! 0x35 = 16
           \<and> vtoc ! 0x36 = 0 \<and> vtoc ! 0x37 = 1
           \<and> unat (vtoc ! 0x36) + 256 * unat (vtoc ! 0x37) = 256"
proof -
  have "snd (format_dos33 d) = Inr (d\<lparr>data := formatted_data (data d)\<rparr>)"
    by (simp add: format_dos33_result [OF assms])
  moreover have "get_sector (d\<lparr>data := formatted_data (data d)\<rparr>) 17 0 = Inr format_vtoc"
    by (rule get_sector_formatted [OF assms])
  moreover have "format_vtoc ! 0x01 = 17" "format_vtoc ! 0x02 = 1" "format_vtoc ! 0x03 = 3"
    "format_vtoc ! 0x34 = 35" "format_vtoc ! 0x35 = 16" "format_vtoc ! 0x36 = 0"
    "format_vtoc ! 0x37 = 1"
    by (simp_all add: format_vtoc_nth)
  ultimately show ?thesis
    using length_format_vtoc by simp
qed

theorem format_writes_vtoc_header_witness:
  "int (length (data (DiskImage_init ''dos33'' ''DISK''))) = DISK_SIZE
   \<and> (\<exists>d' vtoc. snd (format_dos33 (DiskImage_init ''dos33'' ''DISK'')) = Inr d'
           \<and> get_sector d' 17 0 = Inr vtoc
           \<and> length vtoc = 256
           \<and> vtoc ! 0x01 = 17 \<and> vtoc ! 0x02 = 1 \<and> vtoc ! 0x03 = 3
           \<and> vtoc ! 0x34 = 35 \<and> vtoc ! 0x35 = 16
           \<and> vtoc ! 0x36 = 0 \<and> vtoc ! 0x37 = 1
           \<and> unat (vtoc ! 0x36) + 256 * unat (vtoc ! 0x37) = 256)"
  using format_writes_vtoc_header [of "DiskImage_init ''dos33'' ''DISK''"]
    length_DiskImage_init [of "''dos33''" "''DISK''"]
  by blast

text \<open>
  Claim C1, evaluated on the code. The claim asks that after formatting the bits of track 17
  are clear (used) and the bits of every other track are set (free). The VTOC is built
  from a zero-filled sector and the loop only clears bits of track 17, so no bit of the
  bitmap is ever set: after \<^verbatim>\<open>format_dos33\<close> on a new image the bits of track 17 are
  clear, and so are the bits of tracks 0, 16 and 34, which the claim calls free.
\<close>

theorem format_marks_every_track_used:
  "snd (format_dos33 (DiskImage_init ''dos33'' ''DISK'')) =
     Inr ((DiskImage_init ''dos33'' ''DISK'')
            \<lparr>data := replicate 69632 0 @ format_vtoc @ format_catalog @ replicate 73216 0\<rparr>)
   \<and> get_sector ((DiskImage_init ''dos33'' ''DISK'')
            \<lparr>data := replicate 69632 0 @ format_vtoc @ format_catalog @ replicate 73216 0\<rparr>) 17 0 =
       Inr format_vtoc
   \<and> bitmap_bit format_vtoc 17 0 = False
   \<and> bitmap_bit format_vtoc 17 15 = False
   \<and> bitmap_bit format_vtoc 0 0 = False
   \<and> bitmap_bit format_vtoc 16 7 = False
   \<and> bitmap_bit format_vtoc 34 15 = False"
proof -
  let ?D = "DiskImage_init ''dos33'' ''DISK''"
  have n: "int (length (data ?D)) = DISK_SIZE" by (rule length_DiskImage_init)
  have f: "formatted_data (data ?D) =
           replicate 69632 0 @ format_vtoc @ format_catalog @ replicate 73216 0"
    by (simp add: formatted_data_def DiskImage_init_def geometry_defs)
  have a: "snd (format_dos33 ?D) = Inr (?D\<lparr>data := formatted_data (data ?D)\<rparr>)"
    by (simp add: format_dos33_result [OF n])
  have b: "get_sector (?D\<lparr>data := formatted_data (data ?D)\<rparr>) 17 0 = Inr format_vtoc"
    by (rule get_sector_formatted [OF n])
  have c: "bitmap_bit format_vtoc 17 0 = False" "bitmap_bit format_vtoc 17 15 = False"
    "bitmap_bit format_vtoc 0 0 = False" "bitmap_bit format_vtoc 16 7 = False"
    "bitmap_bit format_vtoc 34 15 = False"
    by (simp_all add: format_vtoc_bitmap_clear)
  show ?thesis
    using a b c unfolding f by blast
qed

subsection \<open>Adding a file\<close>

text \<open>
  Claim C2, as amended. Every call of \<^verbatim>\<open>add_file_dos33\<close> returns without an error,
  for a zero-length input as for any other, whatever the free space; and after the call
  the image (its buffer of 143,360 bytes included) is identical to the one before the call.
\<close>

theorem add_file_never_fails:
  "snd (add_file_dos33 d filename [] file_type load_address) = Inr d
   \<and> snd (add_file_dos33 d filename dat file_type load_address) = Inr d"
  by (simp add: add_file_dos33_def Let_def)

text \<open>
  The claim as first stated fails: on a new image a zero-length file is accepted (no
  EmptyFile error), and so is a file of 143,361 bytes, which needs 561 sectors where
  the whole disk has 560 (no DiskFull error).
\<close>

theorem add_file_error_counterexample:
  "snd (add_file_dos33 (DiskImage_init ''dos33'' ''DISK'') ''X'' [] 0x04 0x2000) =
     Inr (DiskImage_init ''dos33'' ''DISK'')
   \<and> snd (add_file_dos33 (DiskImage_init ''dos33'' ''DISK'') ''X'' (replicate 143361 0) 0x04 0x2000) =
     Inr (DiskImage_init ''dos33'' ''DISK'')"
  by (simp add: add_file_dos33_def Let_def)

text \<open>
  Claim C9. For every file name, payload, file type and load address,
  \<^verbatim>\<open>add_file_dos33\<close> leaves every byte of the buffer unchanged, so that every sector
  (data, track-sector list, catalog, VTOC bitmap) reads as before; all it does is print
  one line with the name cut to 30 characters.
\<close>

theorem add_file_leaves_buffer:
  "(case snd (add_file_dos33 d filename dat file_type load_address) of
      Inl e \<Rightarrow> False
    | Inr d' \<Rightarrow> data d' = data d \<and> get_sector d' track sector = get_sector d track sector)
   \<and> fst (add_file_dos33 d filename dat file_type load_address) =
       [AddingFile (take 30 filename) (length dat) file_type load_address]"
  by (simp add: add_file_dos33_def Let_def)

subsection \<open>The verifier\<close>

lemma py_getslice_nonneg:
  assumes "0 \<le> a" "a \<le> b"
  shows "py_getslice xs a b = take (nat (b - a)) (drop (nat a) xs)"
proof -
  let ?n = "length xs"
  consider (inside) "b \<le> int ?n" | (middle) "a \<le> int ?n" "int ?n < b" | (outside) "int ?n < a"
    by linarith
  then show ?thesis
  proof cases
    case inside
    then have "slice_bound a ?n = nat a" "slice_bound b ?n = nat b"
      using assms by (simp_all add: slice_bound_def)
    then show ?thesis
      using assms by (simp add: py_getslice_def Let_def nat_diff_distrib)
  next
    case middle
    then have s: "slice_bound a ?n = nat a" "slice_bound b ?n = ?n"
      using assms by (simp_all add: slice_bound_def)
    have "?n - nat a \<le> nat (b - a)" using middle assms by linarith
    then have "take (nat (b - a)) (drop (nat a) xs) = drop (nat a) xs" by simp
    moreover have "?n \<le> nat a \<Longrightarrow> drop (nat a) xs = []" by simp
    ultimately show ?thesis
      by (simp add: py_getslice_def Let_def s)
  next
    case outside
    then have s: "slice_bound a ?n = ?n" "slice_bound b ?n = ?n"
      using assms by (simp_all add: slice_bound_def)
    have "drop (nat a) xs = []" using outside by simp
    then show ?thesis by (simp add: py_getslice_def Let_def s)
  qed
qed

lemma range_7: "[0..<7] = [0, 1, 2, 3, 4, 5, 6::nat]"
  by (simp add: upt_conv_Cons)

lemma count_entries_shape:
  assumes "\<forall>i\<in>set idx. 11 + 35 * i < length c"
  shows "\<exists>ext n. count_entries c idx fe out = (out @ ext, Inr n) \<and>
                  set ext \<subseteq> {l. \<exists>k f t. l = FileEntry k f t}"
  using assms
proof (induction idx arbitrary: fe out)
  case Nil
  then show ?case by simp
next
  case (Cons i rest)
  have i: "11 + 35 * i < length c" and r: "\<forall>i\<in>set rest. 11 + 35 * i < length c"
    using Cons.prems by simp_all
  have g: "py_getitem c (11 + int i * 35) = Inr (c ! (11 + 35 * i))"
  proof -
    have "py_getitem c (11 + int i * 35) = Inr (c ! nat (11 + int i * 35))"
      using i by (intro py_getitem_inside) simp_all
    moreover have "nat (11 + int i * 35) = 11 + 35 * i" by (simp add: nat_add_distrib nat_mult_distrib)
    ultimately show ?thesis by simp
  qed
  let ?ft = "c ! (11 + 35 * i)"
  show ?case
  proof (cases "?ft \<noteq> 0 \<and> ?ft \<noteq> 0xFF")
    case True
    let ?l = "FileEntry (fe + 1)
        (py_strip (map (\<lambda>b. char_of (unat (b AND 0x7F)))
           (filter (\<lambda>b. b \<noteq> 0) (py_getslice c (11 + int i * 35 + 3) (11 + int i * 35 + 3 + 30)))))
        ?ft"
    obtain ext n where e: "count_entries c rest (fe + 1) (out @ [?l]) = ((out @ [?l]) @ ext, Inr n)"
      "set ext \<subseteq> {l. \<exists>k f t. l = FileEntry k f t}"
      using Cons.IH [OF r, of "fe + 1" "out @ [?l]"] by blast
    have "count_entries c (i # rest) fe out = (out @ (?l # ext), Inr n)"
      using True e(1) by (simp add: g Let_def)
    moreover have "set (?l # ext) \<subseteq> {l. \<exists>k f t. l = FileEntry k f t}"
      using e(2) by auto
    ultimately show ?thesis by blast
  next
    case False
    obtain ext n where e: "count_entries c rest fe out = (out @ ext, Inr n)"
      "set ext \<subseteq> {l. \<exists>k f t. l = FileEntry k f t}"
      using Cons.IH [OF r, of fe out] by blast
    have "count_entries c (i # rest) fe out = (out @ ext, Inr n)"
      using False e(1) by (auto simp add: g Let_def)
    with e(2) show ?thesis by blast
  qed
qed

lemma verify_catalog_shape:
  assumes "222 \<le> length (py_getslice dat 69888 70144)"
  shows "\<exists>ext fl. verify_catalog dat sz v out =
           (out @ [CatalogHeader,
                   NextCatalog (py_getslice dat 69888 70144 ! 1) (py_getslice dat 69888 70144 ! 2)]
              @ ext
              @ [fl, Separator, if int sz = DISK_SIZE \<and> v = 3 then ValidImage else MayHaveIssues],
            Inr (int sz = DISK_SIZE \<and> v = 3))
         \<and> set ext \<subseteq> {l. \<exists>k f t. l = FileEntry k f t}
         \<and> (fl = NoFiles \<or> (\<exists>n. fl = FoundFiles n))"
proof -
  let ?c = "py_getslice dat 69888 70144"
  have g: "py_getitem ?c 1 = Inr (?c ! 1)" "py_getitem ?c 2 = Inr (?c ! 2)"
    using assms by (simp_all add: py_getitem_def)
  have "\<forall>i\<in>set [0..<7]. 11 + 35 * i < length ?c"
    using assms by (simp add: range_7)
  then obtain ext n where e:
    "count_entries ?c [0..<7] 0 (out @ [CatalogHeader] @ [NextCatalog (?c ! 1) (?c ! 2)]) =
       ((out @ [CatalogHeader] @ [NextCatalog (?c ! 1) (?c ! 2)]) @ ext, Inr n)"
    "set ext \<subseteq> {l. \<exists>k f t. l = FileEntry k f t}"
    using count_entries_shape by blast
  let ?fl = "if n > 0 then FoundFiles n else NoFiles"
  have "verify_catalog dat sz v out =
           (out @ [CatalogHeader, NextCatalog (?c ! 1) (?c ! 2)] @ ext
              @ [?fl, Separator, if int sz = DISK_SIZE \<and> v = 3 then ValidImage else MayHaveIssues],
            Inr (int sz = DISK_SIZE \<and> v = 3))"
    using e(1) by (simp add: verify_catalog_def geometry_defs g Let_def)
  moreover have "?fl = NoFiles \<or> (\<exists>n. ?fl = FoundFiles n)" by simp
  ultimately show ?thesis using e(2) by blast
qed

lemma read_vtoc_fields_ok:
  "54 \<le> length vtoc \<Longrightarrow>
   read_vtoc_fields vtoc = Inr (vtoc ! 3, vtoc ! 6, vtoc ! 39, vtoc ! 52, vtoc ! 53)"
  by (simp add: read_vtoc_fields_def py_getitem_def)

lemma verify_disk_image_shape:
  assumes f: "fs p = Some dat" and n: "70110 \<le> length dat"
  shows "\<exists>boot ext fl. verify_disk_image fs p =
           ([VerifyingHeader p, Separator, FileSize (length dat)]
              @ (if int (length dat) \<noteq> DISK_SIZE
                 then [SizeWarning, SizeDifference (int (length dat) - DISK_SIZE)]
                 else [CorrectSize])
              @ [BootSectorHeader] @ boot
              @ [VtocHeader, DosVersion (dat ! 69635), VolumeNumber (dat ! 69638),
                 MaxTSPairs (dat ! 69671), Tracks (dat ! 69684), SectorsPerTrack (dat ! 69685)]
              @ (if dat ! 69684 = 35 \<and> dat ! 69685 = 16 then [ValidVtoc] else [UnexpectedGeometry])
              @ [CatalogHeader, NextCatalog (dat ! 69889) (dat ! 69890)]
              @ ext
              @ [fl, Separator,
                 if int (length dat) = DISK_SIZE \<and> dat ! 69635 = 3 then ValidImage else MayHaveIssues],
            Inr (int (length dat) = DISK_SIZE \<and> dat ! 69635 = 3))
         \<and> set boot \<subseteq> {l. (\<exists>k. l = NonZeroBytes k) \<or> l = BootContainsData \<or>
                             (\<exists>bs. l = First16Bytes bs) \<or> l = BootEmpty}
         \<and> set ext \<subseteq> {l. \<exists>k f t. l = FileEntry k f t}
         \<and> (fl = NoFiles \<or> (\<exists>n. fl = FoundFiles n))"
proof -
  let ?v = "py_getslice dat 69632 69888" and ?c = "py_getslice dat 69888 70144"
  have v: "?v = take 256 (drop 69632 dat)" and c: "?c = take 256 (drop 69888 dat)"
    by (simp_all add: py_getslice_nonneg)
  have lv: "54 \<le> length ?v" and lc: "222 \<le> length ?c"
    using n by (simp_all add: v c)
  have vn: "?v ! 3 = dat ! 69635" "?v ! 6 = dat ! 69638" "?v ! 39 = dat ! 69671"
    "?v ! 52 = dat ! 69684" "?v ! 53 = dat ! 69685"
    using n by (simp_all add: v)
  have cn: "?c ! 1 = dat ! 69889" "?c ! 2 = dat ! 69890"
    using n by (simp_all add: c)
  have r: "read_vtoc_fields ?v =
           Inr (dat ! 69635, dat ! 69638, dat ! 69671, dat ! 69684, dat ! 69685)"
    using read_vtoc_fields_ok [OF lv] by (simp add: vn)
  let ?nz = "length (filter (\<lambda>b. b \<noteq> 0) (py_getslice dat 0 256))"
  let ?boot = "[NonZeroBytes ?nz] @
      (if ?nz > 0 then [BootContainsData, First16Bytes (py_getslice (py_getslice dat 0 256) 0 16)]
       else [BootEmpty])"
  let ?out = "[VerifyingHeader p, Separator, FileSize (length dat)]
              @ (if int (length dat) \<noteq> DISK_SIZE
                 then [SizeWarning, SizeDifference (int (length dat) - DISK_SIZE)]
                 else [CorrectSize])
              @ [BootSectorHeader] @ ?boot
              @ [VtocHeader, DosVersion (dat ! 69635), VolumeNumber (dat ! 69638),
                 MaxTSPairs (dat ! 69671), Tracks (dat ! 69684), SectorsPerTrack (dat ! 69685)]
              @ (if dat ! 69684 = 35 \<and> dat ! 69685 = 16 then [ValidVtoc] else [UnexpectedGeometry])"
  have u: "verify_disk_image fs p = verify_catalog dat (length dat) (dat ! 69635) ?out"
    by (simp add: verify_disk_image_def f Let_def BYTES_PER_SECTOR_def r)
  obtain ext fl where e: "verify_catalog dat (length dat) (dat ! 69635) ?out =
           (?out @ [CatalogHeader, NextCatalog (?c ! 1) (?c ! 2)] @ ext
              @ [fl, Separator,
                 if int (length dat) = DISK_SIZE \<and> dat ! 69635 = 3 then ValidImage else MayHaveIssues],
            Inr (int (length dat) = DISK_SIZE \<and> dat ! 69635 = 3))"
    "set ext \<subseteq> {l. \<exists>k f t. l = FileEntry k f t}"
    "fl = NoFiles \<or> (\<exists>n. fl = FoundFiles n)"
    using verify_catalog_shape [OF lc, of "length dat" "dat ! 69635" ?out] by blast
  have b: "set ?boot \<subseteq> {l. (\<exists>k. l = NonZeroBytes k) \<or> l = BootContainsData \<or>
                             (\<exists>bs. l = First16Bytes bs) \<or> l = BootEmpty}"
    by simp
  have "verify_disk_image fs p =
           ([VerifyingHeader p, Separator, FileSize (length dat)]
              @ (if int (length dat) \<noteq> DISK_SIZE
                 then [SizeWarning, SizeDifference (int (length dat) - DISK_SIZE)]
                 else [CorrectSize])
              @ [BootSectorHeader] @ ?boot
              @ [VtocHeader, DosVersion (dat ! 69635), VolumeNumber (dat ! 69638),
                 MaxTSPairs (dat ! 69671), Tracks (dat ! 69684), SectorsPerTrack (dat ! 69685)]
              @ (if dat ! 69684 = 35 \<and> dat ! 69685 = 16 then [ValidVtoc] else [UnexpectedGeometry])
              @ [CatalogHeader, NextCatalog (dat ! 69889) (dat ! 69890)]
              @ ext
              @ [fl, Separator,
                 if int (length dat) = DISK_SIZE \<and> dat ! 69635 = 3 then ValidImage else MayHaveIssues],
            Inr (int (length dat) = DISK_SIZE \<and> dat ! 69635 = 3))"
    unfolding u e(1) cn by simp
  with b e(2,3) show ?thesis by blast
qed

text \<open>
  Claim C7, as amended. For every image file of at least 70,110 bytes (long enough for
  the reads of the VTOC and of the first catalog sector), \<^verbatim>\<open>verify_disk_image\<close>
  evaluates and reports each check whatever the others give: it prints the correct-size
  line exactly when the length is 143,360 and the size warning otherwise; it prints the
  valid-VTOC line exactly when the VTOC declares 35 tracks and 16 sectors per track
  (bytes \<open>0x34\<close> and \<open>0x35\<close> of the sector at offset 69632) and the
  unexpected-geometry line otherwise; it prints the DOS version it reads (byte \<open>0x03\<close>).
  Its verdict is success exactly when the length is 143,360 and the DOS version is 3: the
  geometry check is reported but is no part of the verdict.
\<close>

theorem verify_reports_checks:
  assumes "fs disk_path = Some dat" "70110 \<le> length dat"
  shows "snd (verify_disk_image fs disk_path) =
           Inr (int (length dat) = DISK_SIZE \<and> dat ! 69635 = 3)
       \<and> (CorrectSize \<in> set (fst (verify_disk_image fs disk_path))
            \<longleftrightarrow> int (length dat) = DISK_SIZE)
       \<and> (SizeWarning \<in> set (fst (verify_disk_image fs disk_path))
            \<longleftrightarrow> int (length dat) \<noteq> DISK_SIZE)
       \<and> (ValidVtoc \<in> set (fst (verify_disk_image fs disk_path))
            \<longleftrightarrow> dat ! 69684 = 35 \<and> dat ! 69685 = 16)
       \<and> (UnexpectedGeometry \<in> set (fst (verify_disk_image fs disk_path))
            \<longleftrightarrow> \<not> (dat ! 69684 = 35 \<and> dat ! 69685 = 16))
       \<and> DosVersion (dat ! 69635) \<in> set (fst (verify_disk_image fs disk_path))
       \<and> (ValidImage \<in> set (fst (verify_disk_image fs disk_path))
            \<longleftrightarrow> int (length dat) = DISK_SIZE \<and> dat ! 69635 = 3)
       \<and> (MayHaveIssues \<in> set (fst (verify_disk_image fs disk_path))
            \<longleftrightarrow> \<not> (int (length dat) = DISK_SIZE \<and> dat ! 69635 = 3))"
proof -
  obtain boot ext fl where s: "verify_disk_image fs disk_path =
           ([VerifyingHeader disk_path, Separator, FileSize (length dat)]
              @ (if int (length dat) \<noteq> DISK_SIZE
                 then [SizeWarning, SizeDifference (int (length dat) - DISK_SIZE)]
                 else [CorrectSize])
              @ [BootSectorHeader] @ boot
              @ [VtocHeader, DosVersion (dat ! 69635), VolumeNumber (dat ! 69638),
                 MaxTSPairs (dat ! 69671), Tracks (dat ! 69684), SectorsPerTrack (dat ! 69685)]
              @ (if dat ! 69684 = 35 \<and> dat ! 69685 = 16 then [ValidVtoc] else [UnexpectedGeometry])
              @ [CatalogHeader, NextCatalog (dat ! 69889) (dat ! 69890)]
              @ ext
              @ [fl, Separator,
                 if int (length dat) = DISK_SIZE \<and> dat ! 69635 = 3 then ValidImage else MayHaveIssues],
            Inr (int (length dat) = DISK_SIZE \<and> dat ! 69635 = 3))"
    and b: "set boot \<subseteq> {l. (\<exists>k. l = NonZeroBytes k) \<or> l = BootContainsData \<or>
                             (\<exists>bs. l = First16Bytes bs) \<or> l = BootEmpty}"
    and e: "set ext \<subseteq> {l. \<exists>k f t. l = FileEntry k f t}"
    and fl: "fl = NoFiles \<or> (\<exists>n. fl = FoundFiles n)"
    using verify_disk_image_shape [of fs disk_path dat] assms by blast
  have 1: "snd (verify_disk_image fs disk_path) =
           Inr (int (length dat) = DISK_SIZE \<and> dat ! 69635 = 3)"
    by (simp add: s)
  have 2: "CorrectSize \<in> set (fst (verify_disk_image fs disk_path))
            \<longleftrightarrow> int (length dat) = DISK_SIZE"
    using b e fl unfolding s by auto
  have 3: "SizeWarning \<in> set (fst (verify_disk_image fs disk_path))
            \<longleftrightarrow> int (length dat) \<noteq> DISK_SIZE"
    using b e fl unfolding s by auto
  have 4: "ValidVtoc \<in> set (fst (verify_disk_image fs disk_path))
            \<longleftrightarrow> dat ! 69684 = 35 \<and> dat ! 69685 = 16"
    using b e fl unfolding s by auto
  have 5: "UnexpectedGeometry \<in> set (fst (verify_disk_image fs disk_path))
            \<longleftrightarrow> \<not> (dat ! 69684 = 35 \<and> dat ! 69685 = 16)"
    using b e fl unfolding s by auto
  have 6: "DosVersion (dat ! 69635) \<in> set (fst (verify_disk_image fs disk_path))"
    unfolding s by simp
  have 7: "ValidImage \<in> set (fst (verify_disk_image fs disk_path))
            \<longleftrightarrow> int (length dat) = DISK_SIZE \<and> dat ! 69635 = 3"
    using b e fl unfolding s by auto
  have 8: "MayHaveIssues \<in> set (fst (verify_disk_image fs disk_path))
            \<longleftrightarrow> \<not> (int (length dat) = DISK_SIZE \<and> dat ! 69635 = 3)"
    using b e fl unfolding s by auto
  from 1 2 3 4 5 6 7 8 show ?thesis by blast
qed

text \<open>
  The theorem at a concrete input: a blank (all-zero) image of 143,360 bytes has the right
  size, an unexpected geometry and DOS version 0, and is not accepted.
\<close>

theorem verify_reports_checks_witness:
  "[''blank.dsk'' \<mapsto> replicate 143360 (0::byte)] ''blank.dsk'' = Some (replicate 143360 0)
   \<and> 70110 \<le> length (replicate 143360 (0::byte))
   \<and> snd (verify_disk_image [''blank.dsk'' \<mapsto> replicate 143360 0] ''blank.dsk'') = Inr False
   \<and> CorrectSize \<in> set (fst (verify_disk_image [''blank.dsk'' \<mapsto> replicate 143360 0] ''blank.dsk''))
   \<and> UnexpectedGeometry \<in> set (fst (verify_disk_image [''blank.dsk'' \<mapsto> replicate 143360 0] ''blank.dsk''))
   \<and> DosVersion 0 \<in> set (fst (verify_disk_image [''blank.dsk'' \<mapsto> replicate 143360 0] ''blank.dsk''))
   \<and> MayHaveIssues \<in> set (fst (verify_disk_image [''blank.dsk'' \<mapsto> replicate 143360 0] ''blank.dsk''))"
proof -
  let ?Z = "replicate 143360 (0::byte)"
  let ?fs = "[''blank.dsk'' \<mapsto> ?Z]"
  have f: "?fs ''blank.dsk'' = Some ?Z" by simp
  have n: "70110 \<le> length ?Z" by simp
  have z: "?Z ! 69635 = 0" "?Z ! 69684 = 0" "?Z ! 69685 = 0" "int (length ?Z) = DISK_SIZE"
    by (simp_all add: geometry_defs)
  show ?thesis
    using verify_reports_checks [of ?fs "''blank.dsk''" ?Z, OF f n] f n
    unfolding z by simp
qed

text \<open>
  The claim as first stated fails twice. An image of the right size whose VTOC holds DOS
  version 3 but track count 0 and 0 sectors per track is reported with an unexpected
  geometry and still gets the verdict success. And on an empty image the run ends with
  \<^verbatim>\<open>IndexError\<close> at the first read of the VTOC, after the size warning: the geometry
  and the DOS version are neither evaluated nor reported, and there is no verdict.
\<close>

theorem verify_verdict_counterexample:
  "snd (verify_disk_image
          [''x.dsk'' \<mapsto> replicate 69635 0 @ [3] @ replicate 73724 0] ''x.dsk'') = Inr True
   \<and> UnexpectedGeometry \<in> set (fst (verify_disk_image
          [''x.dsk'' \<mapsto> replicate 69635 0 @ [3] @ replicate 73724 0] ''x.dsk''))
   \<and> ValidVtoc \<notin> set (fst (verify_disk_image
          [''x.dsk'' \<mapsto> replicate 69635 0 @ [3] @ replicate 73724 0] ''x.dsk''))
   \<and> verify_disk_image [''e.dsk'' \<mapsto> []] ''e.dsk'' =
       ([VerifyingHeader ''e.dsk'', Separator, FileSize 0, SizeWarning,
         SizeDifference (- 143360), BootSectorHeader, NonZeroBytes 0, BootEmpty, VtocHeader],
        Inl IndexError)"
proof -
  let ?A = "replicate 69635 0 @ [3] @ replicate 73724 (0::byte)"
  let ?fs = "[''x.dsk'' \<mapsto> ?A]"
  have f: "?fs ''x.dsk'' = Some ?A" by simp
  have n: "70110 \<le> length ?A" by simp
  have a: "?A ! 69635 = 3" "?A ! 69684 = 0" "?A ! 69685 = 0" "int (length ?A) = DISK_SIZE"
    by (simp_all add: nth_append geometry_defs)
  obtain boot ext fl where s: "verify_disk_image ?fs ''x.dsk'' =
           ([VerifyingHeader ''x.dsk'', Separator, FileSize (length ?A)]
              @ (if int (length ?A) \<noteq> DISK_SIZE
                 then [SizeWarning, SizeDifference (int (length ?A) - DISK_SIZE)]
                 else [CorrectSize])
              @ [BootSectorHeader] @ boot
              @ [VtocHeader, DosVersion (?A ! 69635), VolumeNumber (?A ! 69638),
                 MaxTSPairs (?A ! 69671), Tracks (?A ! 69684), SectorsPerTrack (?A ! 69685)]
              @ (if ?A ! 69684 = 35 \<and> ?A ! 69685 = 16 then [ValidVtoc] else [UnexpectedGeometry])
              @ [CatalogHeader, NextCatalog (?A ! 69889) (?A ! 69890)]
              @ ext
              @ [fl, Separator,
                 if int (length ?A) = DISK_SIZE \<and> ?A ! 69635 = 3 then ValidImage else MayHaveIssues],
            Inr (int (length ?A) = DISK_SIZE \<and> ?A ! 69635 = 3))"
    and b: "set boot \<subseteq> {l. (\<exists>k. l = NonZeroBytes k) \<or> l = BootContainsData \<or>
                             (\<exists>bs. l = First16Bytes bs) \<or> l = BootEmpty}"
    and e: "set ext \<subseteq> {l. \<exists>k f t. l = FileEntry k f t}"
    and fl: "fl = NoFiles \<or> (\<exists>n. fl = FoundFiles n)"
    using verify_disk_image_shape [of ?fs "''x.dsk''" ?A] f n by blast
  have 1: "snd (verify_disk_image ?fs ''x.dsk'') = Inr True"
    unfolding s a by simp
  have 2: "UnexpectedGeometry \<in> set (fst (verify_disk_image ?fs ''x.dsk''))"
    unfolding s a by simp
  have 3: "ValidVtoc \<notin> set (fst (verify_disk_image ?fs ''x.dsk''))"
    using b e fl unfolding s a by auto
  have 4: "verify_disk_image [''e.dsk'' \<mapsto> []] ''e.dsk'' =
       ([VerifyingHeader ''e.dsk'', Separator, FileSize 0, SizeWarning,
         SizeDifference (- 143360), BootSectorHeader, NonZeroBytes 0, BootEmpty, VtocHeader],
        Inl IndexError)"
    by (simp add: verify_disk_image_def py_getslice_def slice_bound_def read_vtoc_fields_def
        py_getitem_def geometry_defs Let_def)
  from 1 2 3 4 show ?thesis by blast
qed

subsection \<open>Verifying a freshly formatted image\<close>

lemma count_entries_format_catalog:
  "count_entries format_catalog [0..<7] 0 out = (out, Inr 0)"
proof -
  have "py_getitem format_catalog 11 = Inr 0" "py_getitem format_catalog 46 = Inr 0"
    "py_getitem format_catalog 81 = Inr 0" "py_getitem format_catalog 116 = Inr 0"
    "py_getitem format_catalog 151 = Inr 0" "py_getitem format_catalog 186 = Inr 0"
    "py_getitem format_catalog 221 = Inr 0"
    by (simp_all add: py_getitem_def length_format_catalog format_catalog_nth)
  then show ?thesis by (simp add: range_7)
qed

lemma verify_catalog_formatted:
  assumes "py_getslice dat 69888 70144 = format_catalog"
  shows "verify_catalog dat 143360 3 out =
         (out @ [CatalogHeader, NextCatalog 17 2, NoFiles, Separator, ValidImage], Inr True)"
proof -
  have "py_getitem format_catalog 1 = Inr 17" "py_getitem format_catalog 2 = Inr 2"
    by (simp_all add: py_getitem_def length_format_catalog format_catalog_nth)
  then show ?thesis
    by (simp add: verify_catalog_def geometry_defs assms count_entries_format_catalog)
qed

lemma verify_formatted_data:
  assumes "fs p = Some (formatted_data (replicate 143360 0))"
  shows "verify_disk_image fs p =
          ([VerifyingHeader p, Separator, FileSize 143360, CorrectSize,
            BootSectorHeader, NonZeroBytes 0, BootEmpty,
            VtocHeader, DosVersion 3, VolumeNumber 254, MaxTSPairs 122, Tracks 35,
            SectorsPerTrack 16, ValidVtoc,
            CatalogHeader, NextCatalog 17 2, NoFiles, Separator, ValidImage],
           Inr True)"
proof -
  let ?F = "formatted_data (replicate 143360 0)"
  have len: "length ?F = 143360" by (simp add: length_formatted_data)
  have boot: "py_getslice ?F 0 256 = replicate 256 0"
    by (simp add: py_getslice_nonneg) (simp add: formatted_data_def)
  have vt: "py_getslice ?F 69632 69888 = format_vtoc"
    by (simp add: py_getslice_nonneg vtoc_of_formatted_data)
  have ct: "py_getslice ?F 69888 70144 = format_catalog"
    by (simp add: py_getslice_nonneg catalog_of_formatted_data)
  have r: "read_vtoc_fields format_vtoc = Inr (3, 254, 122, 35, 16)"
    using read_vtoc_fields_ok [of format_vtoc]
    by (simp add: length_format_vtoc format_vtoc_nth)
  show ?thesis
    by (simp add: verify_disk_image_def assms Let_def len geometry_defs boot vt r
        verify_catalog_formatted [OF ct])
qed

text \<open>
  Claim C8. A new image that has only been formatted (\<^verbatim>\<open>format_dos33\<close>, no file
  added) and saved is verified with these lines and no other: the size is correct, the
  boot sector is empty, the VTOC declares DOS version 3, 35 tracks and 16 sectors per
  track and is reported valid, the first catalog sector holds no file entry ("No files in
  catalog"), and the verdict is success.
\<close>

theorem verify_fresh_format:
  "\<exists>d'. snd (format_dos33 (DiskImage_init fmt nm)) = Inr d' \<and>
        verify_disk_image (save d' output_path fs) output_path =
          ([VerifyingHeader output_path, Separator, FileSize 143360, CorrectSize,
            BootSectorHeader, NonZeroBytes 0, BootEmpty,
            VtocHeader, DosVersion 3, VolumeNumber 254, MaxTSPairs 122, Tracks 35,
            SectorsPerTrack 16, ValidVtoc,
            CatalogHeader, NextCatalog 17 2, NoFiles, Separator, ValidImage],
           Inr True)"
proof -
  let ?D = "DiskImage_init fmt nm"
  let ?d' = "?D\<lparr>data := formatted_data (data ?D)\<rparr>"
  have a: "snd (format_dos33 ?D) = Inr ?d'"
    by (simp add: format_dos33_result [OF length_DiskImage_init])
  have "save ?d' output_path fs output_path = Some (formatted_data (replicate 143360 0))"
    by (simp add: save_def DiskImage_init_def geometry_defs)
  then have "verify_disk_image (save ?d' output_path fs) output_path =
          ([VerifyingHeader output_path, Separator, FileSize 143360, CorrectSize,
            BootSectorHeader, NonZeroBytes 0, BootEmpty,
            VtocHeader, DosVersion 3, VolumeNumber 254, MaxTSPairs 122, Tracks 35,
            SectorsPerTrack 16, ValidVtoc,
            CatalogHeader, NextCatalog 17 2, NoFiles, Separator, ValidImage],
           Inr True)"
    by (rule verify_formatted_data)
  with a show ?thesis by blast
qed

end
